theory Spec2Isabelle
  imports Complex_Main
begin

section \<open>The disk usage status item (diskUsage.tsx)\<close>

text \<open>
  The module polls a metrics endpoint and keeps the derived display state of the disk
  usage in \<^verbatim>\<open>DiskUsage.Model\<close>. This theory embeds the model's poll handler, its
  \<^verbatim>\<open>_updateMetricsValues\<close> method and the request function \<^verbatim>\<open>Private.factory\<close>.

  JavaScript numbers are modelled by the reals: the byte counts of a payload are the
  finite values that a JSON body delivers, and division is exact. A field of type
  \<^verbatim>\<open>number | null\<close> is a \<open>real option\<close>, and \<^verbatim>\<open>!==\<close> on such values is
  disequality of options. A value of the string-literal type \<^verbatim>\<open>MemoryUnit\<close> is a
  string.
\<close>

type_synonym MemoryUnit = string

subsection \<open>The imports from format.ts\<close>

text \<open>
  Modelled from the spec: \<^verbatim>\<open>MEMORY_UNIT_LIMITS\<close> and \<^verbatim>\<open>convertToLargestUnit\<close> are imported
  from \<^verbatim>\<open>./format\<close>, which is not among the sources. The spec describes the unit table
  as an ordered set of scale tags, each with a fixed byte multiplier, ordered by
  multiplier, the smallest unit having multiplier 1. Here the table is a parameter:
  \<open>limits\<close> gives the multiplier of a unit, \<open>order\<close> lists the units from the largest
  multiplier to the smallest. The smallest unit is the \<^verbatim>\<open>'B'\<close> that diskUsage.tsx itself
  assigns.
\<close>

definition ordered_units :: "(MemoryUnit \<Rightarrow> real) \<Rightarrow> MemoryUnit list \<Rightarrow> bool" where
  "ordered_units limits order \<longleftrightarrow>
     order \<noteq> [] \<and> last order = ''B'' \<and> limits ''B'' = 1 \<and>
     sorted_wrt (\<lambda>u u'. limits u' < limits u) order"

text \<open>
  Modelled from the spec: \<^verbatim>\<open>convertToLargestUnit\<close> of format.ts (section 4.1). Iterate
  the ordered unit table from largest multiplier to smallest; pick the first unit whose
  multiplier is at most \<open>bytes\<close>; if none qualifies, fall back to the smallest unit. The
  scaled value is \<open>bytes\<close> divided by the multiplier of the unit.
\<close>

definition convertToLargestUnit ::
  "(MemoryUnit \<Rightarrow> real) \<Rightarrow> MemoryUnit list \<Rightarrow> real \<Rightarrow> real \<times> MemoryUnit" where
  "convertToLargestUnit limits order bytes =
     (case List.find (\<lambda>u. limits u \<le> bytes) order of
        Some u \<Rightarrow> (bytes / limits u, u)
      | None \<Rightarrow> (bytes / limits ''B'', ''B''))"

text \<open>
  A sample table for the scenarios of the spec, which name the byte (multiplier 1) and
  a GB-equivalent unit of multiplier \<open>10 ^ 9\<close>; the units in between are decimal too.
\<close>

definition decimal_limits :: "MemoryUnit \<Rightarrow> real" where
  "decimal_limits u =
     (if u = ''GB'' then 1000000000
      else if u = ''MB'' then 1000000
      else if u = ''KB'' then 1000
      else 1)"

definition decimal_order :: "MemoryUnit list" where
  "decimal_order = [''GB'', ''MB'', ''KB'', ''B'']"

subsection \<open>The response of the metrics server and the state of the poll\<close>

text \<open>
  \<^verbatim>\<open>Private.IMetricRequestResult\<close>. The body comes from \<^verbatim>\<open>response.json()\<close>, so a
  field may be missing whatever the interface declares, and the model tests for that
  with \<^verbatim>\<open>hasOwnProperty\<close>: \<open>None\<close> is a field that the object does not have. The
  record holds the two fields that the model reads. What the test itself does on a body
  that has an own property named \<^verbatim>\<open>hasOwnProperty\<close> is the subject of \<open>json_object\<close>
  below.
\<close>

record IMetricRequestResult =
  disk_used :: "real option"
  disk_total :: "real option"

text \<open>
  The phase of \<^verbatim>\<open>poll.state\<close>. The handler tells \<^verbatim>\<open>'resolved'\<close> and \<^verbatim>\<open>'rejected'\<close> from
  every other phase of the poll; a payload of \<open>None\<close> is \<^verbatim>\<open>null\<close>.
\<close>

datatype phase = resolved | rejected | other_phase

record poll_state =
  payload :: "IMetricRequestResult option"
  phase :: phase

subsection \<open>DiskUsage.Model\<close>

text \<open>
  The private fields of the model, named without their underscore. \<open>stateChanged\<close>
  counts the calls of \<^verbatim>\<open>this.stateChanged.emit\<close>: the change notifications.
\<close>

record Model =
  diskUsed :: real
  diskTotal :: "real option"
  metricsAvailable :: bool
  units :: MemoryUnit
  warn :: bool
  stateChanged :: nat

definition new_Model :: Model where
  "new_Model =
     \<lparr>diskUsed = 0, diskTotal = None, metricsAvailable = False, units = ''B'',
      warn = False, stateChanged = 0\<rparr>"

definition usageWarning :: "Model \<Rightarrow> bool" where
  "usageWarning m = warn m"

text \<open>
  \<^verbatim>\<open>_updateMetricsValues\<close>, on a payload on which the call
  \<^verbatim>\<open>value.hasOwnProperty('disk_used')\<close> of line 165 returns; the call itself is
  \<open>hasOwnProperty_disk_used\<close> below. The two imports are the parameters \<open>conv\<close>
  (\<^verbatim>\<open>convertToLargestUnit\<close>) and \<open>limits\<close> (\<^verbatim>\<open>MEMORY_UNIT_LIMITS\<close>). The test
  \<^verbatim>\<open>diskTotal ? ... : null\<close> is a truthiness test: a missing field and the number 0
  both take the \<^verbatim>\<open>null\<close> branch.
\<close>

definition updateMetricsValues ::
  "(real \<Rightarrow> real \<times> MemoryUnit) \<Rightarrow> (MemoryUnit \<Rightarrow> real) \<Rightarrow>
   IMetricRequestResult option \<Rightarrow> Model \<Rightarrow> Model" where
  "updateMetricsValues conv limits val m =
     (let oldMetricsAvailable = metricsAvailable m;
          oldDiskUsed = diskUsed m;
          oldDiskTotal = diskTotal m;
          oldUnits = units m;
          unavailable =
            m\<lparr>metricsAvailable := False, diskUsed := 0, diskTotal := None,
              units := ''B'', warn := False\<rparr>;
          m1 =
            (case val of
               None \<Rightarrow> unavailable
             | Some v \<Rightarrow>
                 (case disk_used v of
                    None \<Rightarrow> unavailable
                  | Some diskUsedBytes \<Rightarrow>
                      (let (diskUsed', units') = conv diskUsedBytes
                       in m\<lparr>metricsAvailable := True, diskUsed := diskUsed',
                            units := units',
                            diskTotal :=
                              (case disk_total v of
                                 None \<Rightarrow> None
                               | Some t \<Rightarrow>
                                   if t \<noteq> 0 then Some (t / limits units') else None)\<rparr>)))
      in if diskUsed m1 \<noteq> oldDiskUsed \<or> units m1 \<noteq> oldUnits \<or>
            diskTotal m1 \<noteq> oldDiskTotal \<or> metricsAvailable m1 \<noteq> oldMetricsAvailable
         then m1\<lparr>stateChanged := stateChanged m1 + 1\<rparr>
         else m1)"

text \<open>The handler that the constructor connects to \<^verbatim>\<open>this._poll.ticked\<close>.\<close>

definition ticked ::
  "(real \<Rightarrow> real \<times> MemoryUnit) \<Rightarrow> (MemoryUnit \<Rightarrow> real) \<Rightarrow>
   poll_state \<Rightarrow> Model \<Rightarrow> Model" where
  "ticked conv limits st m =
     (if phase st = resolved then updateMetricsValues conv limits (payload st) m
      else if phase st = rejected then
        (let oldMetricsAvailable = metricsAvailable m;
             m1 = m\<lparr>metricsAvailable := False, diskUsed := 0, diskTotal := None,
                    units := ''B''\<rparr>
         in if oldMetricsAvailable then m1\<lparr>stateChanged := stateChanged m1 + 1\<rparr>
            else m1)
      else m)"

text \<open>
  The states that the model reaches: a new model that has handled a sequence of ticks,
  the earliest first.
\<close>

fun run ::
  "(real \<Rightarrow> real \<times> MemoryUnit) \<Rightarrow> (MemoryUnit \<Rightarrow> real) \<Rightarrow>
   poll_state list \<Rightarrow> Model \<Rightarrow> Model" where
  "run conv limits [] m = m"
| "run conv limits (st # sts) m = run conv limits sts (ticked conv limits st m)"

text \<open>The fields that \<^verbatim>\<open>_updateMetricsValues\<close> compares with their old values.\<close>

definition snapshot :: "Model \<Rightarrow> real \<times> MemoryUnit \<times> real option \<times> bool" where
  "snapshot m = (diskUsed m, units m, diskTotal m, metricsAvailable m)"

text \<open>The invariant of the data model: an unavailable model shows nothing.\<close>

definition unavailable_inv :: "Model \<Rightarrow> bool" where
  "unavailable_inv m \<longleftrightarrow>
     (\<not> metricsAvailable m \<longrightarrow> diskUsed m = 0 \<and> diskTotal m = None \<and> units m = ''B'')"

subsection \<open>The guard of line 165 on a parsed body\<close>

text \<open>
  The payload of a resolved tick is what \<^verbatim>\<open>response.json()\<close> parsed. A JSON object may
  have an own property named \<^verbatim>\<open>hasOwnProperty\<close>; its value is never a function, and it
  shadows the method of \<^verbatim>\<open>Object.prototype\<close> that line 165 calls on the body. The record
  adds to the two fields whether the body has such a property.
\<close>

record json_object = IMetricRequestResult +
  own_hasOwnProperty :: bool

datatype error = TypeError

text \<open>
  The call \<^verbatim>\<open>value.hasOwnProperty('disk_used')\<close>: on a body that shadows the method it
  throws, as a call of a value that is not a function does.
\<close>

definition hasOwnProperty_disk_used :: "json_object \<Rightarrow> error + bool" where
  "hasOwnProperty_disk_used v =
     (if own_hasOwnProperty v then Inl TypeError else Inr (disk_used v \<noteq> None))"

text \<open>
  \<^verbatim>\<open>_updateMetricsValues\<close> on the parsed body. Lines 160 to 163 read the old values and
  assign nothing; the guard of line 165 does not make the call on \<^verbatim>\<open>null\<close>; when the
  call throws, the method has assigned no field and emitted nothing, and \<open>Inl\<close> is the
  error that it raises. The handler passes the payload of a resolved tick to the method
  as it is (line 93).
\<close>

definition updateMetricsValues_parsed ::
  "(real \<Rightarrow> real \<times> MemoryUnit) \<Rightarrow> (MemoryUnit \<Rightarrow> real) \<Rightarrow>
   json_object option \<Rightarrow> Model \<Rightarrow> error + Model" where
  "updateMetricsValues_parsed conv limits val m =
     (case val of
        None \<Rightarrow> Inr (updateMetricsValues conv limits None m)
      | Some v \<Rightarrow>
          (case hasOwnProperty_disk_used v of
             Inl e \<Rightarrow> Inl e
           | Inr has \<Rightarrow>
               Inr (updateMetricsValues conv limits
                      (Some (IMetricRequestResult.truncate v)) m)))"

subsection \<open>Private.factory\<close>




subsection \<open>Sample inputs\<close>

text \<open>The first scenario of the spec: 5 GB used of 20 GB.\<close>

definition scenario_payload :: IMetricRequestResult where
  "scenario_payload = \<lparr>disk_used = Some 5000000000, disk_total = Some 20000000000\<rparr>"




text \<open>The body \<^verbatim>\<open>{"hasOwnProperty": 1}\<close>: no \<^verbatim>\<open>disk_used\<close>, and the method shadowed.\<close>

definition shadowing_body :: json_object where
  "shadowing_body = \<lparr>disk_used = None, disk_total = None, own_hasOwnProperty = True\<rparr>"



section \<open>Properties\<close>

subsection \<open>Auxiliary facts\<close>

lemmas handler_defs = ticked_def updateMetricsValues_def Let_def

text \<open>No tick sets the warning flag of a model that does not have it set.\<close>

lemma warn_ticked: "\<not> warn m \<Longrightarrow> \<not> warn (ticked conv limits st m)"
  by (simp add: ticked_def updateMetricsValues_def Let_def split: option.splits prod.splits)

lemma warn_run: "\<not> warn m \<Longrightarrow> \<not> warn (run conv limits sts m)"
  by (induction sts arbitrary: m) (simp_all add: warn_ticked)

text \<open>The multipliers of an ordered table are at least 1, that of the byte.\<close>

lemma ordered_units_ge_1:
  assumes "ordered_units limits order" and "u \<in> set order"
  shows "1 \<le> limits u"
proof -
  from assms(2) obtain i where i: "i < length order" and u: "order ! i = u"
    by (auto simp: in_set_conv_nth)
  from assms(1) have ne: "order \<noteq> []" and l: "order ! (length order - 1) = ''B''"
    and one: "limits ''B'' = 1"
    and s: "sorted_wrt (\<lambda>u u'. limits u' < limits u) order"
    by (auto simp: ordered_units_def last_conv_nth)
  show ?thesis
  proof (cases "i = length order - 1")
    case True
    with l u one show ?thesis by simp
  next
    case False
    with i ne have "i < length order - 1" and "length order - 1 < length order"
      by (auto simp: less_le)
    from sorted_wrt_nth_less [OF s this] l u one show ?thesis by simp
  qed
qed

text \<open>
  In a table of strictly decreasing multipliers, every unit larger than the first unit
  that fits has been tried before it, and did not fit.
\<close>

lemma find_first_unit:
  fixes limits :: "MemoryUnit \<Rightarrow> real"
  assumes s: "sorted_wrt (\<lambda>u u'. limits u' < limits u) order"
    and f: "List.find (\<lambda>u. limits u \<le> b) order = Some u"
    and u': "u' \<in> set order" and lt: "limits u < limits u'"
  shows "b < limits u'"
proof -
  from f obtain i where i: "i < length order" and ui: "u = order ! i"
    and first: "\<forall>j<i. \<not> limits (order ! j) \<le> b"
    by (auto simp: find_Some_iff)
  from u' obtain k where k: "k < length order" and uk: "order ! k = u'"
    by (auto simp: in_set_conv_nth)
  have "k < i"
  proof (rule ccontr)
    assume "\<not> k < i"
    then have "i = k \<or> i < k" by auto
    then show False
    proof
      assume "i = k"
      with ui uk lt show False by simp
    next
      assume "i < k"
      from sorted_wrt_nth_less [OF s this k] ui uk lt show False by simp
    qed
  qed
  with first uk show ?thesis by auto
qed

text \<open>The sample table on the inputs of the scenarios.\<close>

lemma decimal_scenario:
  "convertToLargestUnit decimal_limits decimal_order 5000000000 = (5, ''GB'')"
  by (simp add: convertToLargestUnit_def decimal_limits_def decimal_order_def)


subsection \<open>Change notifications of a resolved tick\<close>

text \<open>
  Claim C1. A resolved tick emits exactly one change notification when one of the fields
  used, unit, total, available differs from the snapshot held before, and none when all
  four are equal. Handling the same payload a second time emits nothing.
\<close>

theorem updateMetricsValues_notifies_iff_changed:
  "stateChanged (ticked conv limits \<lparr>payload = p, phase = resolved\<rparr> m) =
     stateChanged m +
       (if snapshot (ticked conv limits \<lparr>payload = p, phase = resolved\<rparr> m) \<noteq> snapshot m
        then 1 else 0) \<and>
   stateChanged (ticked conv limits \<lparr>payload = p, phase = resolved\<rparr>
       (ticked conv limits \<lparr>payload = p, phase = resolved\<rparr> m)) =
     stateChanged (ticked conv limits \<lparr>payload = p, phase = resolved\<rparr> m)"
  by (auto simp add: handler_defs snapshot_def split: option.splits prod.splits)

theorem updateMetricsValues_notifies_iff_changed_witness:
  "stateChanged (ticked (convertToLargestUnit decimal_limits decimal_order) decimal_limits
       \<lparr>payload = Some scenario_payload, phase = resolved\<rparr> new_Model) = 1 \<and>
   stateChanged (ticked (convertToLargestUnit decimal_limits decimal_order) decimal_limits
       \<lparr>payload = Some scenario_payload, phase = resolved\<rparr>
       (ticked (convertToLargestUnit decimal_limits decimal_order) decimal_limits
          \<lparr>payload = Some scenario_payload, phase = resolved\<rparr> new_Model)) = 1"
  using updateMetricsValues_notifies_iff_changed
    [of "convertToLargestUnit decimal_limits decimal_order" decimal_limits
        "Some scenario_payload" new_Model]
  by (simp add: handler_defs snapshot_def new_Model_def scenario_payload_def decimal_scenario)

subsection \<open>The snapshot derived from a payload\<close>




subsection \<open>A rejected tick\<close>

text \<open>
  Claim C3. In every state that the model reaches, a rejected tick sets used to 0, total
  to absent, the unit to the byte and available to false, the warning flag stays false,
  and exactly one change notification is emitted if the model was available before, none
  if it was unavailable already.
\<close>

theorem rejected_tick_unavailable:
  "diskUsed (ticked conv limits \<lparr>payload = p, phase = rejected\<rparr>
       (run conv limits sts new_Model)) = 0 \<and>
   diskTotal (ticked conv limits \<lparr>payload = p, phase = rejected\<rparr>
       (run conv limits sts new_Model)) = None \<and>
   units (ticked conv limits \<lparr>payload = p, phase = rejected\<rparr>
       (run conv limits sts new_Model)) = ''B'' \<and>
   \<not> metricsAvailable (ticked conv limits \<lparr>payload = p, phase = rejected\<rparr>
       (run conv limits sts new_Model)) \<and>
   \<not> warn (ticked conv limits \<lparr>payload = p, phase = rejected\<rparr>
       (run conv limits sts new_Model)) \<and>
   stateChanged (ticked conv limits \<lparr>payload = p, phase = rejected\<rparr>
       (run conv limits sts new_Model)) =
     stateChanged (run conv limits sts new_Model) +
       (if metricsAvailable (run conv limits sts new_Model) then 1 else 0)"
proof -
  have "\<not> warn (run conv limits sts new_Model)"
    by (rule warn_run) (simp add: new_Model_def)
  then show ?thesis by (simp add: ticked_def Let_def)
qed

theorem rejected_tick_unavailable_witness:
  "stateChanged (run (convertToLargestUnit decimal_limits decimal_order) decimal_limits
       [\<lparr>payload = Some scenario_payload, phase = resolved\<rparr>] new_Model) = 1 \<and>
   ticked (convertToLargestUnit decimal_limits decimal_order) decimal_limits
       \<lparr>payload = None, phase = rejected\<rparr>
       (run (convertToLargestUnit decimal_limits decimal_order) decimal_limits
          [\<lparr>payload = Some scenario_payload, phase = resolved\<rparr>] new_Model) =
     \<lparr>diskUsed = 0, diskTotal = None, metricsAvailable = False, units = ''B'',
      warn = False, stateChanged = 2\<rparr> \<and>
   ticked (convertToLargestUnit decimal_limits decimal_order) decimal_limits
       \<lparr>payload = None, phase = rejected\<rparr>
       (run (convertToLargestUnit decimal_limits decimal_order) decimal_limits
          [\<lparr>payload = Some scenario_payload, phase = resolved\<rparr>,
           \<lparr>payload = None, phase = rejected\<rparr>] new_Model) =
     \<lparr>diskUsed = 0, diskTotal = None, metricsAvailable = False, units = ''B'',
      warn = False, stateChanged = 2\<rparr>"
  using rejected_tick_unavailable
    [of "convertToLargestUnit decimal_limits decimal_order" decimal_limits None
        "[\<lparr>payload = Some scenario_payload, phase = resolved\<rparr>]"]
  by (simp add: handler_defs new_Model_def scenario_payload_def decimal_scenario
      decimal_limits_def)

subsection \<open>The invariant of an unavailable model\<close>

text \<open>
  Claim C4. An unavailable model has used 0, no total and the byte as unit: this holds of
  a new model, and every tick of the poll (resolved with any payload, rejected, or of
  another phase) preserves it.
\<close>

theorem unavailable_inv_preserved:
  "unavailable_inv new_Model \<and>
   (unavailable_inv m \<longrightarrow> unavailable_inv (ticked conv limits st m))"
  by (cases "phase st")
    (auto simp add: handler_defs unavailable_inv_def new_Model_def
      split: option.splits prod.splits)

theorem unavailable_inv_preserved_witness:
  "unavailable_inv new_Model \<and> \<not> metricsAvailable new_Model \<and>
   unavailable_inv (ticked (convertToLargestUnit decimal_limits decimal_order) decimal_limits
       \<lparr>payload = None, phase = rejected\<rparr> new_Model) \<and>
   \<not> metricsAvailable (ticked (convertToLargestUnit decimal_limits decimal_order)
       decimal_limits \<lparr>payload = None, phase = rejected\<rparr> new_Model)"
  using unavailable_inv_preserved
    [of new_Model "convertToLargestUnit decimal_limits decimal_order" decimal_limits
        "\<lparr>payload = None, phase = rejected\<rparr>"]
  by (simp add: ticked_def new_Model_def)

subsection \<open>A resolved tick without usable payload\<close>

text \<open>
  Where the call of the guard returns, the method on the parsed body is the handler of
  a resolved tick on the two fields.
\<close>

lemma updateMetricsValues_parsed_unshadowed:
  "updateMetricsValues_parsed conv limits None m =
     Inr (ticked conv limits \<lparr>payload = None, phase = resolved\<rparr> m) \<and>
   updateMetricsValues_parsed conv limits
       (Some \<lparr>disk_used = u, disk_total = t, own_hasOwnProperty = False\<rparr>) m =
     Inr (ticked conv limits
       \<lparr>payload = Some \<lparr>disk_used = u, disk_total = t\<rparr>, phase = resolved\<rparr> m)"
  by (simp add: updateMetricsValues_parsed_def hasOwnProperty_disk_used_def ticked_def
      IMetricRequestResult.truncate_def)

text \<open>
  On \<^verbatim>\<open>null\<close>, and on an object without a \<^verbatim>\<open>disk_used\<close> field that does not shadow
  \<^verbatim>\<open>hasOwnProperty\<close>, the method returns and the model is unavailable: used 0, total
  absent, the byte as unit, available false and the warning flag false.
\<close>

lemma unshadowed_without_disk_used_unavailable:
  "(case updateMetricsValues_parsed conv limits None m of
      Inl e \<Rightarrow> False
    | Inr m' \<Rightarrow>
        diskUsed m' = 0 \<and> diskTotal m' = None \<and> units m' = ''B'' \<and>
        \<not> metricsAvailable m' \<and> \<not> warn m') \<and>
   (case updateMetricsValues_parsed conv limits
           (Some \<lparr>disk_used = None, disk_total = t, own_hasOwnProperty = False\<rparr>) m of
      Inl e \<Rightarrow> False
    | Inr m' \<Rightarrow>
        diskUsed m' = 0 \<and> diskTotal m' = None \<and> units m' = ''B'' \<and>
        \<not> metricsAvailable m' \<and> \<not> warn m')"
  by (simp add: updateMetricsValues_parsed_def hasOwnProperty_disk_used_def
      IMetricRequestResult.truncate_def updateMetricsValues_def Let_def)

text \<open>
  Claim C5. A resolved tick whose payload is \<^verbatim>\<open>null\<close>, or an object without a
  \<^verbatim>\<open>disk_used\<close> field, is to put the model into the unavailable state rather than raise
  an error. The code misses one case. The body \<^verbatim>\<open>{"hasOwnProperty": 1}\<close> has no
  \<^verbatim>\<open>disk_used\<close> field, and on it the method raises a \<^verbatim>\<open>TypeError\<close> at the guard: a model
  that showed 5 GB of 20 GB before the tick is not made unavailable and still shows them.
\<close>

theorem shadowed_hasOwnProperty_raises:
  "disk_used shadowing_body = None \<and>
   updateMetricsValues_parsed (convertToLargestUnit decimal_limits decimal_order)
       decimal_limits (Some shadowing_body)
       (run (convertToLargestUnit decimal_limits decimal_order) decimal_limits
          [\<lparr>payload = Some scenario_payload, phase = resolved\<rparr>] new_Model) =
     Inl TypeError \<and>
   run (convertToLargestUnit decimal_limits decimal_order) decimal_limits
       [\<lparr>payload = Some scenario_payload, phase = resolved\<rparr>] new_Model =
     \<lparr>diskUsed = 5, diskTotal = Some 20, metricsAvailable = True, units = ''GB'',
      warn = False, stateChanged = 1\<rparr>"
  by (simp add: updateMetricsValues_parsed_def hasOwnProperty_disk_used_def
      shadowing_body_def handler_defs new_Model_def scenario_payload_def decimal_scenario
      decimal_limits_def)

subsection \<open>The unit converter\<close>

text \<open>
  Claim C6. On an ordered unit table, the converter returns for every byte count \<open>b\<close> (the
  non-negative ones among them) a value \<open>v\<close> and a unit \<open>u\<close> of the table with
  \<open>v = b / limits u\<close>; \<open>v\<close> is at least 1 unless \<open>u\<close> is the byte; no unit of the table with
  a larger multiplier gives a quotient of at least 1; and 0 bytes are the value 0 in
  bytes.
\<close>

theorem convertToLargestUnit_largest:
  assumes "ordered_units limits order"
  shows "(case convertToLargestUnit limits order b of
            (v, u) \<Rightarrow>
              u \<in> set order \<and> v = b / limits u \<and> (u \<noteq> ''B'' \<longrightarrow> 1 \<le> v) \<and>
              (\<forall>u' \<in> set order. limits u < limits u' \<longrightarrow> \<not> 1 \<le> b / limits u')) \<and>
         convertToLargestUnit limits order 0 = (0, ''B'')"
proof -
  from assms have s: "sorted_wrt (\<lambda>u u'. limits u' < limits u) order"
    and B: "''B'' \<in> set order"
    using last_in_set [of order] by (auto simp: ordered_units_def)
  have pos: "0 < limits w" if "w \<in> set order" for w
    using ordered_units_ge_1 [OF assms that] by simp
  have zero: "convertToLargestUnit limits order 0 = (0, ''B'')"
  proof -
    have "List.find (\<lambda>u. limits u \<le> 0) order = None"
      using pos by (force simp: find_None_iff)
    then show ?thesis by (simp add: convertToLargestUnit_def)
  qed
  have main: "case convertToLargestUnit limits order b of
            (v, u) \<Rightarrow>
              u \<in> set order \<and> v = b / limits u \<and> (u \<noteq> ''B'' \<longrightarrow> 1 \<le> v) \<and>
              (\<forall>u' \<in> set order. limits u < limits u' \<longrightarrow> \<not> 1 \<le> b / limits u')"
  proof (cases "List.find (\<lambda>u. limits u \<le> b) order")
    case None
    then have lt: "b < limits w" if "w \<in> set order" for w
      using that by (force simp: find_None_iff)
    have "\<not> 1 \<le> b / limits w" if "w \<in> set order" for w
      using lt [OF that] pos [OF that] by (simp add: pos_le_divide_eq)
    with None B show ?thesis by (simp add: convertToLargestUnit_def)
  next
    case (Some u)
    then have u: "u \<in> set order" and le: "limits u \<le> b"
      by (auto simp: find_Some_iff)
    from le pos [OF u] have "1 \<le> b / limits u"
      by (simp add: pos_le_divide_eq)
    moreover have "\<not> 1 \<le> b / limits w" if "w \<in> set order" "limits u < limits w" for w
      using find_first_unit [OF s Some that] pos [OF that(1)]
      by (simp add: pos_le_divide_eq)
    ultimately show ?thesis using Some u by (simp add: convertToLargestUnit_def)
  qed
  from main zero show ?thesis by simp
qed

theorem convertToLargestUnit_largest_witness:
  "ordered_units decimal_limits decimal_order \<and>
   convertToLargestUnit decimal_limits decimal_order 5000000000 = (5, ''GB'') \<and>
   1 \<le> (5::real) \<and>
   \<not> 1 \<le> (512::real) / decimal_limits ''KB'' \<and>
   convertToLargestUnit decimal_limits decimal_order 512 = (512, ''B'') \<and>
   convertToLargestUnit decimal_limits decimal_order 0 = (0, ''B'')"
proof -
  have h: "ordered_units decimal_limits decimal_order"
    by (simp add: ordered_units_def decimal_limits_def decimal_order_def)
  show ?thesis
    using h convertToLargestUnit_largest [OF h, of 5000000000]
      convertToLargestUnit_largest [OF h, of 512]
    by (simp add: convertToLargestUnit_def decimal_limits_def decimal_order_def)
qed

subsection \<open>The request of the metrics\<close>




subsection \<open>The warning flag\<close>

text \<open>
  Claim C9. The accessor \<^verbatim>\<open>usageWarning\<close> is false in every state that the model reaches:
  a new model has the flag false, and no tick sets it.
\<close>

theorem usageWarning_never_set:
  "\<not> usageWarning (run conv limits sts new_Model)"
  unfolding usageWarning_def by (rule warn_run) (simp add: new_Model_def)

theorem usageWarning_never_set_witness:
  "\<not> usageWarning new_Model \<and>
   \<not> usageWarning (run (convertToLargestUnit decimal_limits decimal_order) decimal_limits
       [\<lparr>payload = Some scenario_payload, phase = resolved\<rparr>,
        \<lparr>payload = None, phase = rejected\<rparr>] new_Model)"
  using usageWarning_never_set [of "convertToLargestUnit decimal_limits decimal_order"
      decimal_limits "[]"]
    usageWarning_never_set [of "convertToLargestUnit decimal_limits decimal_order"
      decimal_limits "[\<lparr>payload = Some scenario_payload, phase = resolved\<rparr>,
        \<lparr>payload = None, phase = rejected\<rparr>]"]
  by simp

subsection \<open>A total of zero bytes\<close>



end
